theory Spec2Isabelle
  imports Main "HOL-Library.Sublist"
begin

section \<open>Errors and results\<close>

text \<open>
  The package \<open>templates\<close> has two sentinel errors (\<open>ErrMissingName\<close>,
  \<open>ErrMissingImageURL\<close>) and wraps whatever the template engine reports with
  \<open>errors.Wrap(err, msg)\<close>. The faults of the template engine are values of
  \<open>template_error\<close>; a wrapped fault carries the context message.
\<close>

datatype template_error =
    UnclosedAction
  | UnsupportedAction string
  | CannotEvaluateField string

datatype error =
    ErrMissingName
  | ErrMissingImageURL
  | Wrap template_error string

text \<open>
  A Go result \<open>(string, error)\<close> is a pair of the output and an optional error;
  \<open>None\<close> is Go's \<open>nil\<close>.
\<close>

type_synonym result = "string \<times> error option"

section \<open>The fragment of \<open>text/template\<close> the package uses\<close>

text \<open>
  Both templates consist of literal text and actions of the form \<open>{{.Field}}\<close>.
  The engine is modelled on that fragment: the lexer cuts the input at the left
  delimiter \<open>{{\<close>, an action runs to the next right delimiter \<open>}}\<close>, and its body
  has to be a dot followed by an identifier. A left delimiter that is never closed is
  the engine's "unclosed action" fault; every other action form lies outside the
  fragment and is reported as \<open>UnsupportedAction\<close>.
\<close>

datatype node = TextNode string | FieldNode string

text \<open>
  \<open>find_delim d s\<close> is \<open>strings.Index\<close> followed by the cut: the text before the
  first occurrence of the two-character delimiter \<open>dd\<close> and the text after it, or
  \<open>None\<close> when the delimiter does not occur.
\<close>

fun find_delim :: "char \<Rightarrow> string \<Rightarrow> (string \<times> string) option" where
  "find_delim d [] = None"
| "find_delim d [c] = None"
| "find_delim d (c # c' # cs) =
     (if c = d \<and> c' = d then Some ([], cs)
      else (case find_delim d (c' # cs) of
              None \<Rightarrow> None
            | Some (before, rest) \<Rightarrow> Some (c # before, rest)))"

definition isAlphaNumeric :: "char \<Rightarrow> bool" where
  "isAlphaNumeric c \<longleftrightarrow>
     c = CHR ''_''
     \<or> c \<in> set ''abcdefghijklmnopqrstuvwxyz''
     \<or> c \<in> set ''ABCDEFGHIJKLMNOPQRSTUVWXYZ''
     \<or> c \<in> set ''0123456789''"

fun parse_action :: "string \<Rightarrow> template_error + node" where
  "parse_action [] = Inl (UnsupportedAction [])"
| "parse_action (c # cs) =
     (if c = CHR ''.'' \<and> cs \<noteq> [] \<and> list_all isAlphaNumeric cs
      then Inr (FieldNode cs)
      else Inl (UnsupportedAction (c # cs)))"

lemma find_delim_shorter:
  "find_delim d s = Some (before, rest) \<Longrightarrow> length rest < length s"
  by (induction d s arbitrary: before rule: find_delim.induct)
     (auto split: if_splits option.splits)

function Parse :: "string \<Rightarrow> template_error + node list" where
  "Parse s =
     (case find_delim (CHR ''{'') s of
        None \<Rightarrow> Inr (if s = [] then [] else [TextNode s])
      | Some (lit, rest) \<Rightarrow>
          (case find_delim (CHR ''}'') rest of
             None \<Rightarrow> Inl UnclosedAction
           | Some (body, rest') \<Rightarrow>
               (case parse_action body of
                  Inl e \<Rightarrow> Inl e
                | Inr n \<Rightarrow>
                    (case Parse rest' of
                       Inl e \<Rightarrow> Inl e
                     | Inr ns \<Rightarrow> Inr (if lit = [] then n # ns else TextNode lit # n # ns)))))"
  by pat_completeness auto
termination
proof (relation "measure length")
  show "wf (measure length)" by simp
next
  fix s :: string and p q lit rest body rest'
  assume "find_delim (CHR ''{'') s = Some p" and "(lit, rest) = p"
    and "find_delim (CHR ''}'') rest = Some q" and "(body, rest') = q"
  then have "length rest < length s" and "length rest' < length rest"
    using find_delim_shorter by metis+
  then show "(rest', s) \<in> measure length" by simp
qed

declare Parse.simps [simp del]

section \<open>Execution\<close>

datatype val = VString string | VBool bool

fun printValue :: "val \<Rightarrow> string" where
  "printValue (VString s) = s"
| "printValue (VBool b) = (if b then ''true'' else ''false'')"

fun Execute :: "node list \<Rightarrow> (string \<Rightarrow> val option) \<Rightarrow> template_error + string" where
  "Execute [] data = Inr []"
| "Execute (TextNode t # ns) data =
     (case Execute ns data of Inl e \<Rightarrow> Inl e | Inr out \<Rightarrow> Inr (t @ out))"
| "Execute (FieldNode f # ns) data =
     (case data f of
        None \<Rightarrow> Inl (CannotEvaluateField f)
      | Some v \<Rightarrow>
          (case Execute ns data of Inl e \<Rightarrow> Inl e | Inr out \<Rightarrow> Inr (printValue v @ out)))"

definition workflowTemplate :: string where
  \<open>workflowTemplate =
    ''\<newline>'' @
    ''version: "0.1"\<newline>'' @
    ''name: {{.Name}}\<newline>'' @
    ''global_timeout: 6000\<newline>'' @
    ''tasks:\<newline>'' @
    ''  - name: "{{.Name}}"\<newline>'' @
    ''    worker: "{{.DeviceTemplateName}}"\<newline>'' @
    ''    volumes:\<newline>'' @
    ''      - /dev:/dev\<newline>'' @
    ''      - /dev/console:/dev/console\<newline>'' @
    ''      - /lib/firmware:/lib/firmware:ro\<newline>'' @
    ''    actions:\<newline>'' @
    ''      - name: "stream-image"\<newline>'' @
    ''        image: quay.io/tinkerbell-actions/image2disk:v1.0.0\<newline>'' @
    ''        timeout: 600\<newline>'' @
    ''        environment:\<newline>'' @
    ''          IMG_URL: {{.ImageURL}}\<newline>'' @
    ''          DEST_DISK: {{.DestDisk}}\<newline>'' @
    ''          COMPRESSED: true\<newline>'' @
    ''      - name: "create-user"\<newline>'' @
    ''        image: quay.io/tinkerbell-actions/cexec:v1.0.0\<newline>'' @
    ''        timeout: 90\<newline>'' @
    ''        environment:\<newline>'' @
    ''          BLOCK_DEVICE: {{.DestPartition}}\<newline>'' @
    ''          FS_TYPE: ext4\<newline>'' @
    ''          CHROOT: y\<newline>'' @
    ''          DEFAULT_INTERPRETER: "/bin/sh -c"\<newline>'' @
    ''          CMD_LINE: "useradd -p $(openssl passwd -1 tink) -s /bin/bash -d /home/tink/ -m -G sudo tink"\<newline>'' @
    ''      - name: "create-init-script"\<newline>'' @
    ''        image: quay.io/tinkerbell-actions/writefile:v1.0.0\<newline>'' @
    ''        timeout: 90\<newline>'' @
    ''        environment:\<newline>'' @
    ''            DEST_DISK: {{.DestPartition}}\<newline>'' @
    ''            FS_TYPE: ext4\<newline>'' @
    ''            DEST_PATH: /root/cluster-setup.sh\<newline>'' @
    ''            UID: 0\<newline>'' @
    ''            GID: 0\<newline>'' @
    ''            MODE: 0700\<newline>'' @
    ''            DIRMODE: 0700\<newline>'' @
    ''            CONTENTS: |\<newline>'' @
    ''              #!/bin/bash\<newline>'' @
    ''              tdnf install -y apparmor-parser apparmor-utils\<newline>'' @
    ''              iptables -I INPUT -p tcp --dport 6443 -j ACCEPT\<newline>'' @
    ''              rm /root/cluster-setup.sh\<newline>'' @
    ''      - name: "create-init-script-service"\<newline>'' @
    ''        image: quay.io/tinkerbell-actions/writefile:v1.0.0\<newline>'' @
    ''        timeout: 90\<newline>'' @
    ''        environment:\<newline>'' @
    ''            DEST_DISK: {{.DestPartition}}\<newline>'' @
    ''            FS_TYPE: ext4\<newline>'' @
    ''            DEST_PATH: /usr/local/lib/systemd/system/cluster-setup.service\<newline>'' @
    ''            UID: 0\<newline>'' @
    ''            GID: 0\<newline>'' @
    ''            MODE: 0600\<newline>'' @
    ''            DIRMODE: 0600\<newline>'' @
    ''            CONTENTS: |\<newline>'' @
    ''              [Unit]\<newline>'' @
    ''              Before=systemd-user-sessions.service\<newline>'' @
    ''              Wants=network-online.target\<newline>'' @
    ''              After=network-online.target\<newline>'' @
    ''              ConditionPathExists=/root/cluster-setup.sh\<newline>'' @
    ''              [Service]\<newline>'' @
    ''              Type=oneshot\<newline>'' @
    ''              ExecStart=/root/cluster-setup.sh\<newline>'' @
    ''              RemainAfterExit=yes\<newline>'' @
    ''              [Install]\<newline>'' @
    ''              WantedBy=multi-user.target\<newline>'' @
    ''      - name: "enable-init-script"\<newline>'' @
    ''        image: quay.io/tinkerbell-actions/cexec:v1.0.0\<newline>'' @
    ''        timeout: 90\<newline>'' @
    ''        environment:\<newline>'' @
    ''            BLOCK_DEVICE: {{.DestPartition}}\<newline>'' @
    ''            FS_TYPE: ext4\<newline>'' @
    ''            CHROOT: y\<newline>'' @
    ''            DEFAULT_INTERPRETER: "/bin/sh -c"\<newline>'' @
    ''            CMD_LINE: "systemctl enable cluster-setup.service"\<newline>'' @
    ''      - name: "add-tink-cloud-init-config"\<newline>'' @
    ''        image: quay.io/tinkerbell-actions/writefile:v1.0.0\<newline>'' @
    ''        timeout: 90\<newline>'' @
    ''        environment:\<newline>'' @
    ''          DEST_DISK: {{.DestPartition}}\<newline>'' @
    ''          FS_TYPE: ext4\<newline>'' @
    ''          DEST_PATH: /etc/cloud/cloud.cfg.d/10_tinkerbell.cfg\<newline>'' @
    ''          UID: 0\<newline>'' @
    ''          GID: 0\<newline>'' @
    ''          MODE: 0600\<newline>'' @
    ''          DIRMODE: 0700\<newline>'' @
    ''          CONTENTS: |\<newline>'' @
    ''            datasource:\<newline>'' @
    ''              Ec2:\<newline>'' @
    ''                metadata_urls: ["{{.MetadataURL}}"]\<newline>'' @
    ''                strict_id: false\<newline>'' @
    ''            system_info:\<newline>'' @
    ''              default_user:\<newline>'' @
    ''                name: tink\<newline>'' @
    ''                groups: [wheel, adm]\<newline>'' @
    ''                sudo: ["ALL=(ALL) NOPASSWD:ALL"]\<newline>'' @
    ''                shell: /bin/bash\<newline>'' @
    ''            manage_etc_hosts: localhost\<newline>'' @
    ''            warnings:\<newline>'' @
    ''              dsid_missing_source: off\<newline>'' @
    ''      - name: "add-tink-cloud-init-ds-config"\<newline>'' @
    ''        image: quay.io/tinkerbell-actions/writefile:v1.0.0\<newline>'' @
    ''        timeout: 90\<newline>'' @
    ''        environment:\<newline>'' @
    ''          DEST_DISK: {{.DestPartition}}\<newline>'' @
    ''          FS_TYPE: ext4\<newline>'' @
    ''          DEST_PATH: /etc/cloud/ds-identify.cfg\<newline>'' @
    ''          UID: 0\<newline>'' @
    ''          GID: 0\<newline>'' @
    ''          MODE: 0600\<newline>'' @
    ''          DIRMODE: 0700\<newline>'' @
    ''          CONTENTS: |\<newline>'' @
    ''            datasource: Ec2\<newline>'' @
    ''      - name: "kexec-image"\<newline>'' @
    ''        image: quay.io/tinkerbell-actions/kexec:v1.0.0\<newline>'' @
    ''        timeout: 90\<newline>'' @
    ''        pid: host\<newline>'' @
    ''        environment:\<newline>'' @
    ''          BLOCK_DEVICE: {{.DestPartition}}\<newline>'' @
    ''          FS_TYPE: ext4\<newline>'' @
    ''          KERNEL_PATH: /boot/vmlinuz-5.15.86.1-1.cm2\<newline>'' @
    ''          INITRD_PATH: /boot/initrd.img-5.15.86.1-1.cm2\<newline>'' @
    ''          CMD_LINE: "root={{.DestPartition}} rw"\<newline>''\<close>

definition hardwareProvisionTasks :: string where
  \<open>hardwareProvisionTasks =
    ''\<newline>'' @
    ''- powerAction: "off"\<newline>'' @
    ''- oneTimeBootDeviceAction:\<newline>'' @
    ''    device:\<newline>'' @
    ''    - pxe\<newline>'' @
    ''    efiBoot: {{.EFIBoot}}\<newline>'' @
    ''- powerAction: "on"\<newline>''\<close>

section \<open>The workflow renderer\<close>

record WorkflowTemplate =
  Name :: string
  MetadataURL :: string
  ImageURL :: string
  DestDisk :: string
  DestPartition :: string
  DeviceTemplateName :: string

text \<open>
  The engine reaches the exported fields of the struct by name; every field of
  \<open>WorkflowTemplate\<close> is a Go string. A name that is not a field of the struct is the
  engine's "can't evaluate field" fault.
\<close>

definition WorkflowTemplate_field :: "WorkflowTemplate \<Rightarrow> string \<Rightarrow> val option" where
  "WorkflowTemplate_field wt f =
     (if f = ''Name'' then Some (VString (Name wt))
      else if f = ''MetadataURL'' then Some (VString (MetadataURL wt))
      else if f = ''ImageURL'' then Some (VString (ImageURL wt))
      else if f = ''DestDisk'' then Some (VString (DestDisk wt))
      else if f = ''DestPartition'' then Some (VString (DestPartition wt))
      else if f = ''DeviceTemplateName'' then Some (VString (DeviceTemplateName wt))
      else None)"

text \<open>
  \<open>(*WorkflowTemplate).Render\<close>. The receiver is a pointer, so the model returns the
  object as the call leaves it together with the Go result.
\<close>

definition WorkflowTemplate_Render :: "WorkflowTemplate \<Rightarrow> WorkflowTemplate \<times> result" where
  "WorkflowTemplate_Render wt =
     (if Name wt = [] then (wt, ([], Some ErrMissingName))
      else if ImageURL wt = [] then (wt, ([], Some ErrMissingImageURL))
      else
        let wt' = (if DeviceTemplateName wt = []
                   then wt\<lparr>DeviceTemplateName := ''{{.device_1}}''\<rparr>
                   else wt)
        in case Parse workflowTemplate of
             Inl err \<Rightarrow> (wt', ([], Some (Wrap err ''unable to parse template'')))
           | Inr tpl \<Rightarrow>
               (case Execute tpl (WorkflowTemplate_field wt') of
                  Inl err \<Rightarrow> (wt', ([], Some (Wrap err ''unable to execute template'')))
                | Inr buf \<Rightarrow> (wt', (buf, None))))"

section \<open>The hardware task renderer\<close>

record HardwareProvisionTasks =
  EFIBoot :: bool

definition HardwareProvisionTasks_field :: "HardwareProvisionTasks \<Rightarrow> string \<Rightarrow> val option" where
  "HardwareProvisionTasks_field wt f =
     (if f = ''EFIBoot'' then Some (VBool (EFIBoot wt)) else None)"

text \<open>
  \<open>(*HardwareProvisionTasks).Render\<close> never assigns to its receiver, so the model
  returns the Go result alone.
\<close>

definition HardwareProvisionTasks_Render :: "HardwareProvisionTasks \<Rightarrow> result" where
  "HardwareProvisionTasks_Render wt =
     (case Parse hardwareProvisionTasks of
        Inl err \<Rightarrow> ([], Some (Wrap err ''unable to parse template''))
      | Inr tpl \<Rightarrow>
          (case Execute tpl (HardwareProvisionTasks_field wt) of
             Inl err \<Rightarrow> ([], Some (Wrap err ''unable to execute template''))
           | Inr buf \<Rightarrow> (buf, None)))"

section \<open>Parsing a template that was written from its nodes\<close>

text \<open>
  \<open>template_text\<close> writes a node list back as template source. A node list is
  \<open>plain\<close> when no text node is empty or holds a brace, no two text nodes are
  adjacent, and every field name is a non-empty identifier. Parsing the source of a
  plain node list gives the node list back; this is how the two fixed templates are
  parsed below without running the lexer character by character.
\<close>

fun template_text :: "node list \<Rightarrow> string" where
  "template_text [] = []"
| "template_text (TextNode t # ns) = t @ template_text ns"
| "template_text (FieldNode f # ns) = ''{{.'' @ f @ ''}}'' @ template_text ns"

definition plain_field :: "string \<Rightarrow> bool" where
  "plain_field f \<longleftrightarrow> f \<noteq> [] \<and> list_all isAlphaNumeric f"

definition plain_text :: "string \<Rightarrow> bool" where
  "plain_text t \<longleftrightarrow> t \<noteq> [] \<and> CHR ''{'' \<notin> set t"

fun plain :: "node list \<Rightarrow> bool" where
  "plain [] = True"
| "plain [TextNode t] = plain_text t"
| "plain (TextNode t # TextNode u # ns) = False"
| "plain (TextNode t # FieldNode f # ns) = (plain_text t \<and> plain_field f \<and> plain ns)"
| "plain (FieldNode f # ns) = (plain_field f \<and> plain ns)"

lemma find_delim_absent: "d \<notin> set s \<Longrightarrow> find_delim d s = None"
  by (induction d s rule: find_delim.induct) auto

lemma find_delim_first:
  "d \<notin> set a \<Longrightarrow> find_delim d (a @ d # d # rest) = Some (a, rest)"
proof (induction a)
  case Nil
  show ?case by simp
next
  case (Cons c a)
  then show ?case by (cases a) auto
qed

lemma isAlphaNumeric_not_brace: "isAlphaNumeric c \<Longrightarrow> c \<noteq> CHR ''}''"
  by (auto simp: isAlphaNumeric_def)

lemma plain_field_no_brace: "plain_field f \<Longrightarrow> CHR ''}'' \<notin> set (CHR ''.'' # f)"
  by (auto simp: plain_field_def list_all_iff dest: isAlphaNumeric_not_brace)

lemma parse_action_field: "plain_field f \<Longrightarrow> parse_action (CHR ''.'' # f) = Inr (FieldNode f)"
  by (simp add: plain_field_def)

lemma Parse_text: "plain_text t \<Longrightarrow> Parse t = Inr [TextNode t]"
  by (simp add: Parse.simps [of t] plain_text_def find_delim_absent)

lemma Parse_empty: "Parse [] = Inr []"
  by (simp add: Parse.simps [of "[]"])

lemma find_delim_action:
  assumes "plain_field f"
  shows "find_delim (CHR ''}'') (CHR ''.'' # f @ CHR ''}'' # CHR ''}'' # rest) = Some (CHR ''.'' # f, rest)"
  using find_delim_first [of "CHR ''}''" "CHR ''.'' # f" rest] plain_field_no_brace [OF assms]
  by simp

lemma Parse_field:
  assumes "plain_field f"
  shows "Parse (''{{.'' @ f @ ''}}'' @ rest) =
         (case Parse rest of Inl e \<Rightarrow> Inl e | Inr ns \<Rightarrow> Inr (FieldNode f # ns))"
  by (subst Parse.simps)
     (simp add: find_delim_action [OF assms] parse_action_field [OF assms] del: parse_action.simps split: sum.splits)

lemma Parse_text_field:
  assumes "plain_text t" and "plain_field f"
  shows "Parse (t @ ''{{.'' @ f @ ''}}'' @ rest) =
         (case Parse rest of Inl e \<Rightarrow> Inl e | Inr ns \<Rightarrow> Inr (TextNode t # FieldNode f # ns))"
proof -
  have l: "find_delim (CHR ''{'') (t @ CHR ''{'' # CHR ''{'' # CHR ''.'' # f @ CHR ''}'' # CHR ''}'' # rest)
           = Some (t, CHR ''.'' # f @ CHR ''}'' # CHR ''}'' # rest)"
    using assms(1) by (intro find_delim_first) (simp add: plain_text_def)
  have "t \<noteq> []" using assms(1) by (simp add: plain_text_def)
  then show ?thesis
    by (subst Parse.simps)
       (simp add: l find_delim_action [OF assms(2)] parse_action_field [OF assms(2)]
             del: parse_action.simps split: sum.splits)
qed

lemma Parse_template_text: "plain ns \<Longrightarrow> Parse (template_text ns) = Inr ns"
proof (induction ns rule: plain.induct)
  case 1
  show ?case by (simp add: Parse_empty)
next
  case (2 t)
  then show ?case by (simp add: Parse_text)
next
  case (3 t u ns)
  then show ?case by simp
next
  case (4 t f ns)
  then show ?case using Parse_text_field [of t f "template_text ns"] by simp
next
  case (5 f ns)
  then show ?case using Parse_field [of f "template_text ns"] by simp
qed

definition workflowTemplate_nodes :: "node list" where
  \<open>workflowTemplate_nodes =
    [TextNode (''\<newline>'' @
               ''version: "0.1"\<newline>'' @
               ''name: ''),
     FieldNode ''Name'',
     TextNode (''\<newline>'' @
               ''global_timeout: 6000\<newline>'' @
               ''tasks:\<newline>'' @
               ''  - name: "''),
     FieldNode ''Name'',
     TextNode (''"\<newline>'' @
               ''    worker: "''),
     FieldNode ''DeviceTemplateName'',
     TextNode (''"\<newline>'' @
               ''    volumes:\<newline>'' @
               ''      - /dev:/dev\<newline>'' @
               ''      - /dev/console:/dev/console\<newline>'' @
               ''      - /lib/firmware:/lib/firmware:ro\<newline>'' @
               ''    actions:\<newline>'' @
               ''      - name: "stream-image"\<newline>'' @
               ''        image: quay.io/tinkerbell-actions/image2disk:v1.0.0\<newline>'' @
               ''        timeout: 600\<newline>'' @
               ''        environment:\<newline>'' @
               ''          IMG_URL: ''),
     FieldNode ''ImageURL'',
     TextNode (''\<newline>'' @
               ''          DEST_DISK: ''),
     FieldNode ''DestDisk'',
     TextNode (''\<newline>'' @
               ''          COMPRESSED: true\<newline>'' @
               ''      - name: "create-user"\<newline>'' @
               ''        image: quay.io/tinkerbell-actions/cexec:v1.0.0\<newline>'' @
               ''        timeout: 90\<newline>'' @
               ''        environment:\<newline>'' @
               ''          BLOCK_DEVICE: ''),
     FieldNode ''DestPartition'',
     TextNode (''\<newline>'' @
               ''          FS_TYPE: ext4\<newline>'' @
               ''          CHROOT: y\<newline>'' @
               ''          DEFAULT_INTERPRETER: "/bin/sh -c"\<newline>'' @
               ''          CMD_LINE: "useradd -p $(openssl passwd -1 tink) -s /bin/bash -d /home/tink/ -m -G sudo tink"\<newline>'' @
               ''      - name: "create-init-script"\<newline>'' @
               ''        image: quay.io/tinkerbell-actions/writefile:v1.0.0\<newline>'' @
               ''        timeout: 90\<newline>'' @
               ''        environment:\<newline>'' @
               ''            DEST_DISK: ''),
     FieldNode ''DestPartition'',
     TextNode (''\<newline>'' @
               ''            FS_TYPE: ext4\<newline>'' @
               ''            DEST_PATH: /root/cluster-setup.sh\<newline>'' @
               ''            UID: 0\<newline>'' @
               ''            GID: 0\<newline>'' @
               ''            MODE: 0700\<newline>'' @
               ''            DIRMODE: 0700\<newline>'' @
               ''            CONTENTS: |\<newline>'' @
               ''              #!/bin/bash\<newline>'' @
               ''              tdnf install -y apparmor-parser apparmor-utils\<newline>'' @
               ''              iptables -I INPUT -p tcp --dport 6443 -j ACCEPT\<newline>'' @
               ''              rm /root/cluster-setup.sh\<newline>'' @
               ''      - name: "create-init-script-service"\<newline>'' @
               ''        image: quay.io/tinkerbell-actions/writefile:v1.0.0\<newline>'' @
               ''        timeout: 90\<newline>'' @
               ''        environment:\<newline>'' @
               ''            DEST_DISK: ''),
     FieldNode ''DestPartition'',
     TextNode (''\<newline>'' @
               ''            FS_TYPE: ext4\<newline>'' @
               ''            DEST_PATH: /usr/local/lib/systemd/system/cluster-setup.service\<newline>'' @
               ''            UID: 0\<newline>'' @
               ''            GID: 0\<newline>'' @
               ''            MODE: 0600\<newline>'' @
               ''            DIRMODE: 0600\<newline>'' @
               ''            CONTENTS: |\<newline>'' @
               ''              [Unit]\<newline>'' @
               ''              Before=systemd-user-sessions.service\<newline>'' @
               ''              Wants=network-online.target\<newline>'' @
               ''              After=network-online.target\<newline>'' @
               ''              ConditionPathExists=/root/cluster-setup.sh\<newline>'' @
               ''              [Service]\<newline>'' @
               ''              Type=oneshot\<newline>'' @
               ''              ExecStart=/root/cluster-setup.sh\<newline>'' @
               ''              RemainAfterExit=yes\<newline>'' @
               ''              [Install]\<newline>'' @
               ''              WantedBy=multi-user.target\<newline>'' @
               ''      - name: "enable-init-script"\<newline>'' @
               ''        image: quay.io/tinkerbell-actions/cexec:v1.0.0\<newline>'' @
               ''        timeout: 90\<newline>'' @
               ''        environment:\<newline>'' @
               ''            BLOCK_DEVICE: ''),
     FieldNode ''DestPartition'',
     TextNode (''\<newline>'' @
               ''            FS_TYPE: ext4\<newline>'' @
               ''            CHROOT: y\<newline>'' @
               ''            DEFAULT_INTERPRETER: "/bin/sh -c"\<newline>'' @
               ''            CMD_LINE: "systemctl enable cluster-setup.service"\<newline>'' @
               ''      - name: "add-tink-cloud-init-config"\<newline>'' @
               ''        image: quay.io/tinkerbell-actions/writefile:v1.0.0\<newline>'' @
               ''        timeout: 90\<newline>'' @
               ''        environment:\<newline>'' @
               ''          DEST_DISK: ''),
     FieldNode ''DestPartition'',
     TextNode (''\<newline>'' @
               ''          FS_TYPE: ext4\<newline>'' @
               ''          DEST_PATH: /etc/cloud/cloud.cfg.d/10_tinkerbell.cfg\<newline>'' @
               ''          UID: 0\<newline>'' @
               ''          GID: 0\<newline>'' @
               ''          MODE: 0600\<newline>'' @
               ''          DIRMODE: 0700\<newline>'' @
               ''          CONTENTS: |\<newline>'' @
               ''            datasource:\<newline>'' @
               ''              Ec2:\<newline>'' @
               ''                metadata_urls: ["''),
     FieldNode ''MetadataURL'',
     TextNode (''"]\<newline>'' @
               ''                strict_id: false\<newline>'' @
               ''            system_info:\<newline>'' @
               ''              default_user:\<newline>'' @
               ''                name: tink\<newline>'' @
               ''                groups: [wheel, adm]\<newline>'' @
               ''                sudo: ["ALL=(ALL) NOPASSWD:ALL"]\<newline>'' @
               ''                shell: /bin/bash\<newline>'' @
               ''            manage_etc_hosts: localhost\<newline>'' @
               ''            warnings:\<newline>'' @
               ''              dsid_missing_source: off\<newline>'' @
               ''      - name: "add-tink-cloud-init-ds-config"\<newline>'' @
               ''        image: quay.io/tinkerbell-actions/writefile:v1.0.0\<newline>'' @
               ''        timeout: 90\<newline>'' @
               ''        environment:\<newline>'' @
               ''          DEST_DISK: ''),
     FieldNode ''DestPartition'',
     TextNode (''\<newline>'' @
               ''          FS_TYPE: ext4\<newline>'' @
               ''          DEST_PATH: /etc/cloud/ds-identify.cfg\<newline>'' @
               ''          UID: 0\<newline>'' @
               ''          GID: 0\<newline>'' @
               ''          MODE: 0600\<newline>'' @
               ''          DIRMODE: 0700\<newline>'' @
               ''          CONTENTS: |\<newline>'' @
               ''            datasource: Ec2\<newline>'' @
               ''      - name: "kexec-image"\<newline>'' @
               ''        image: quay.io/tinkerbell-actions/kexec:v1.0.0\<newline>'' @
               ''        timeout: 90\<newline>'' @
               ''        pid: host\<newline>'' @
               ''        environment:\<newline>'' @
               ''          BLOCK_DEVICE: ''),
     FieldNode ''DestPartition'',
     TextNode (''\<newline>'' @
               ''          FS_TYPE: ext4\<newline>'' @
               ''          KERNEL_PATH: /boot/vmlinuz-5.15.86.1-1.cm2\<newline>'' @
               ''          INITRD_PATH: /boot/initrd.img-5.15.86.1-1.cm2\<newline>'' @
               ''          CMD_LINE: "root=''),
     FieldNode ''DestPartition'',
     TextNode ('' rw"\<newline>'')]\<close>

definition hardwareProvisionTasks_nodes :: "node list" where
  \<open>hardwareProvisionTasks_nodes =
    [TextNode (''\<newline>'' @
               ''- powerAction: "off"\<newline>'' @
               ''- oneTimeBootDeviceAction:\<newline>'' @
               ''    device:\<newline>'' @
               ''    - pxe\<newline>'' @
               ''    efiBoot: ''),
     FieldNode ''EFIBoot'',
     TextNode (''\<newline>'' @
               ''- powerAction: "on"\<newline>'')]\<close>

definition workflowTemplate_output :: "WorkflowTemplate \<Rightarrow> string" where
  \<open>workflowTemplate_output wt =
    ''\<newline>'' @
    ''version: "0.1"\<newline>'' @
    ''name: '' @ Name wt @ ''\<newline>'' @
    ''global_timeout: 6000\<newline>'' @
    ''tasks:\<newline>'' @
    ''  - name: "'' @ Name wt @ ''"\<newline>'' @
    ''    worker: "'' @ DeviceTemplateName wt @ ''"\<newline>'' @
    ''    volumes:\<newline>'' @
    ''      - /dev:/dev\<newline>'' @
    ''      - /dev/console:/dev/console\<newline>'' @
    ''      - /lib/firmware:/lib/firmware:ro\<newline>'' @
    ''    actions:\<newline>'' @
    ''      - name: "stream-image"\<newline>'' @
    ''        image: quay.io/tinkerbell-actions/image2disk:v1.0.0\<newline>'' @
    ''        timeout: 600\<newline>'' @
    ''        environment:\<newline>'' @
    ''          IMG_URL: '' @ ImageURL wt @ ''\<newline>'' @
    ''          DEST_DISK: '' @ DestDisk wt @ ''\<newline>'' @
    ''          COMPRESSED: true\<newline>'' @
    ''      - name: "create-user"\<newline>'' @
    ''        image: quay.io/tinkerbell-actions/cexec:v1.0.0\<newline>'' @
    ''        timeout: 90\<newline>'' @
    ''        environment:\<newline>'' @
    ''          BLOCK_DEVICE: '' @ DestPartition wt @ ''\<newline>'' @
    ''          FS_TYPE: ext4\<newline>'' @
    ''          CHROOT: y\<newline>'' @
    ''          DEFAULT_INTERPRETER: "/bin/sh -c"\<newline>'' @
    ''          CMD_LINE: "useradd -p $(openssl passwd -1 tink) -s /bin/bash -d /home/tink/ -m -G sudo tink"\<newline>'' @
    ''      - name: "create-init-script"\<newline>'' @
    ''        image: quay.io/tinkerbell-actions/writefile:v1.0.0\<newline>'' @
    ''        timeout: 90\<newline>'' @
    ''        environment:\<newline>'' @
    ''            DEST_DISK: '' @ DestPartition wt @ ''\<newline>'' @
    ''            FS_TYPE: ext4\<newline>'' @
    ''            DEST_PATH: /root/cluster-setup.sh\<newline>'' @
    ''            UID: 0\<newline>'' @
    ''            GID: 0\<newline>'' @
    ''            MODE: 0700\<newline>'' @
    ''            DIRMODE: 0700\<newline>'' @
    ''            CONTENTS: |\<newline>'' @
    ''              #!/bin/bash\<newline>'' @
    ''              tdnf install -y apparmor-parser apparmor-utils\<newline>'' @
    ''              iptables -I INPUT -p tcp --dport 6443 -j ACCEPT\<newline>'' @
    ''              rm /root/cluster-setup.sh\<newline>'' @
    ''      - name: "create-init-script-service"\<newline>'' @
    ''        image: quay.io/tinkerbell-actions/writefile:v1.0.0\<newline>'' @
    ''        timeout: 90\<newline>'' @
    ''        environment:\<newline>'' @
    ''            DEST_DISK: '' @ DestPartition wt @ ''\<newline>'' @
    ''            FS_TYPE: ext4\<newline>'' @
    ''            DEST_PATH: /usr/local/lib/systemd/system/cluster-setup.service\<newline>'' @
    ''            UID: 0\<newline>'' @
    ''            GID: 0\<newline>'' @
    ''            MODE: 0600\<newline>'' @
    ''            DIRMODE: 0600\<newline>'' @
    ''            CONTENTS: |\<newline>'' @
    ''              [Unit]\<newline>'' @
    ''              Before=systemd-user-sessions.service\<newline>'' @
    ''              Wants=network-online.target\<newline>'' @
    ''              After=network-online.target\<newline>'' @
    ''              ConditionPathExists=/root/cluster-setup.sh\<newline>'' @
    ''              [Service]\<newline>'' @
    ''              Type=oneshot\<newline>'' @
    ''              ExecStart=/root/cluster-setup.sh\<newline>'' @
    ''              RemainAfterExit=yes\<newline>'' @
    ''              [Install]\<newline>'' @
    ''              WantedBy=multi-user.target\<newline>'' @
    ''      - name: "enable-init-script"\<newline>'' @
    ''        image: quay.io/tinkerbell-actions/cexec:v1.0.0\<newline>'' @
    ''        timeout: 90\<newline>'' @
    ''        environment:\<newline>'' @
    ''            BLOCK_DEVICE: '' @ DestPartition wt @ ''\<newline>'' @
    ''            FS_TYPE: ext4\<newline>'' @
    ''            CHROOT: y\<newline>'' @
    ''            DEFAULT_INTERPRETER: "/bin/sh -c"\<newline>'' @
    ''            CMD_LINE: "systemctl enable cluster-setup.service"\<newline>'' @
    ''      - name: "add-tink-cloud-init-config"\<newline>'' @
    ''        image: quay.io/tinkerbell-actions/writefile:v1.0.0\<newline>'' @
    ''        timeout: 90\<newline>'' @
    ''        environment:\<newline>'' @
    ''          DEST_DISK: '' @ DestPartition wt @ ''\<newline>'' @
    ''          FS_TYPE: ext4\<newline>'' @
    ''          DEST_PATH: /etc/cloud/cloud.cfg.d/10_tinkerbell.cfg\<newline>'' @
    ''          UID: 0\<newline>'' @
    ''          GID: 0\<newline>'' @
    ''          MODE: 0600\<newline>'' @
    ''          DIRMODE: 0700\<newline>'' @
    ''          CONTENTS: |\<newline>'' @
    ''            datasource:\<newline>'' @
    ''              Ec2:\<newline>'' @
    ''                metadata_urls: ["'' @ MetadataURL wt @ ''"]\<newline>'' @
    ''                strict_id: false\<newline>'' @
    ''            system_info:\<newline>'' @
    ''              default_user:\<newline>'' @
    ''                name: tink\<newline>'' @
    ''                groups: [wheel, adm]\<newline>'' @
    ''                sudo: ["ALL=(ALL) NOPASSWD:ALL"]\<newline>'' @
    ''                shell: /bin/bash\<newline>'' @
    ''            manage_etc_hosts: localhost\<newline>'' @
    ''            warnings:\<newline>'' @
    ''              dsid_missing_source: off\<newline>'' @
    ''      - name: "add-tink-cloud-init-ds-config"\<newline>'' @
    ''        image: quay.io/tinkerbell-actions/writefile:v1.0.0\<newline>'' @
    ''        timeout: 90\<newline>'' @
    ''        environment:\<newline>'' @
    ''          DEST_DISK: '' @ DestPartition wt @ ''\<newline>'' @
    ''          FS_TYPE: ext4\<newline>'' @
    ''          DEST_PATH: /etc/cloud/ds-identify.cfg\<newline>'' @
    ''          UID: 0\<newline>'' @
    ''          GID: 0\<newline>'' @
    ''          MODE: 0600\<newline>'' @
    ''          DIRMODE: 0700\<newline>'' @
    ''          CONTENTS: |\<newline>'' @
    ''            datasource: Ec2\<newline>'' @
    ''      - name: "kexec-image"\<newline>'' @
    ''        image: quay.io/tinkerbell-actions/kexec:v1.0.0\<newline>'' @
    ''        timeout: 90\<newline>'' @
    ''        pid: host\<newline>'' @
    ''        environment:\<newline>'' @
    ''          BLOCK_DEVICE: '' @ DestPartition wt @ ''\<newline>'' @
    ''          FS_TYPE: ext4\<newline>'' @
    ''          KERNEL_PATH: /boot/vmlinuz-5.15.86.1-1.cm2\<newline>'' @
    ''          INITRD_PATH: /boot/initrd.img-5.15.86.1-1.cm2\<newline>'' @
    ''          CMD_LINE: "root='' @ DestPartition wt @ '' rw"\<newline>''\<close>

definition hardwareProvisionTasks_output :: "HardwareProvisionTasks \<Rightarrow> string" where
  \<open>hardwareProvisionTasks_output wt =
    ''\<newline>'' @
    ''- powerAction: "off"\<newline>'' @
    ''- oneTimeBootDeviceAction:\<newline>'' @
    ''    device:\<newline>'' @
    ''    - pxe\<newline>'' @
    ''    efiBoot: '' @ (if EFIBoot wt then ''true'' else ''false'') @ ''\<newline>'' @
    ''- powerAction: "on"\<newline>''\<close>

section \<open>The two templates, parsed and executed\<close>

lemma workflowTemplate_text: "workflowTemplate = template_text workflowTemplate_nodes"
  by (simp add: workflowTemplate_def workflowTemplate_nodes_def)

lemma workflowTemplate_plain: "plain workflowTemplate_nodes"
  by (simp add: workflowTemplate_nodes_def plain_text_def plain_field_def isAlphaNumeric_def)

lemma Parse_workflowTemplate: "Parse workflowTemplate = Inr workflowTemplate_nodes"
  unfolding workflowTemplate_text by (rule Parse_template_text [OF workflowTemplate_plain])

lemma Execute_workflowTemplate:
  "Execute workflowTemplate_nodes (WorkflowTemplate_field wt) = Inr (workflowTemplate_output wt)"
  by (simp add: workflowTemplate_nodes_def WorkflowTemplate_field_def workflowTemplate_output_def)

lemma hardwareProvisionTasks_text:
  "hardwareProvisionTasks = template_text hardwareProvisionTasks_nodes"
  by (simp add: hardwareProvisionTasks_def hardwareProvisionTasks_nodes_def)

lemma hardwareProvisionTasks_plain: "plain hardwareProvisionTasks_nodes"
  by (simp add: hardwareProvisionTasks_nodes_def plain_text_def plain_field_def isAlphaNumeric_def)

lemma Parse_hardwareProvisionTasks:
  "Parse hardwareProvisionTasks = Inr hardwareProvisionTasks_nodes"
  unfolding hardwareProvisionTasks_text
  by (rule Parse_template_text [OF hardwareProvisionTasks_plain])

lemma Execute_hardwareProvisionTasks:
  "Execute hardwareProvisionTasks_nodes (HardwareProvisionTasks_field wt)
   = Inr (hardwareProvisionTasks_output wt)"
  by (simp add: hardwareProvisionTasks_nodes_def HardwareProvisionTasks_field_def
                hardwareProvisionTasks_output_def)

section \<open>What the workflow renderer returns\<close>

definition placeholder :: string where
  "placeholder = ''{{.device_1}}''"

text \<open>
  \<open>defaulted wt\<close> is the object as \<open>Render\<close> leaves it once both checks have
  passed: an empty \<open>DeviceTemplateName\<close> has become the placeholder.
\<close>

definition defaulted :: "WorkflowTemplate \<Rightarrow> WorkflowTemplate" where
  "defaulted wt =
     (if DeviceTemplateName wt = [] then wt\<lparr>DeviceTemplateName := placeholder\<rparr> else wt)"

lemma Render_passed:
  assumes "Name wt \<noteq> []" and "ImageURL wt \<noteq> []"
  shows "WorkflowTemplate_Render wt = (defaulted wt, (workflowTemplate_output (defaulted wt), None))"
  using assms
  by (simp add: WorkflowTemplate_Render_def Parse_workflowTemplate Execute_workflowTemplate
                defaulted_def placeholder_def Let_def)

lemma Render_hardware:
  "HardwareProvisionTasks_Render wt = (hardwareProvisionTasks_output wt, None)"
  by (simp add: HardwareProvisionTasks_Render_def Parse_hardwareProvisionTasks
                Execute_hardwareProvisionTasks)

lemma defaulted_idem: "DeviceTemplateName wt \<noteq> [] \<Longrightarrow> defaulted wt = wt"
  by (simp add: defaulted_def)

lemma defaulted_fields:
  "Name (defaulted wt) = Name wt" "MetadataURL (defaulted wt) = MetadataURL wt"
  "ImageURL (defaulted wt) = ImageURL wt" "DestDisk (defaulted wt) = DestDisk wt"
  "DestPartition (defaulted wt) = DestPartition wt"
  by (simp_all add: defaulted_def)

section \<open>The claims about the validation checks\<close>

text \<open>
  The object the specification uses as its worked example, and the same object with
  single fields emptied; the witnesses below instantiate the theorems at them.
\<close>

definition example_wt :: WorkflowTemplate where
  "example_wt =
     \<lparr>Name = ''m1'', MetadataURL = ''http://meta'', ImageURL = ''http://x/img'',
      DestDisk = ''/dev/sda'', DestPartition = ''/dev/sda1'',
      DeviceTemplateName = ''worker-1''\<rparr>"

lemma example_wt_fields:
  "Name example_wt = ''m1''" "MetadataURL example_wt = ''http://meta''"
  "ImageURL example_wt = ''http://x/img''" "DestDisk example_wt = ''/dev/sda''"
  "DestPartition example_wt = ''/dev/sda1''" "DeviceTemplateName example_wt = ''worker-1''"
  by (simp_all add: example_wt_def)

text \<open>
  C2. For every WorkflowTemplate whose Name is the empty string, Render returns the
  MissingName error and the empty output, whatever the other fields hold (an empty
  ImageURL included: the Name check comes first), and the object is as it was.
\<close>

theorem Render_missing_name:
  assumes "Name wt = []"
  shows "WorkflowTemplate_Render wt = (wt, ([], Some ErrMissingName))"
  using assms by (simp add: WorkflowTemplate_Render_def)

theorem Render_missing_name_witness:
  "Name (example_wt\<lparr>Name := [], ImageURL := []\<rparr>) = []
   \<and> WorkflowTemplate_Render (example_wt\<lparr>Name := [], ImageURL := []\<rparr>)
       = (example_wt\<lparr>Name := [], ImageURL := []\<rparr>, ([], Some ErrMissingName))"
proof -
  have h: "Name (example_wt\<lparr>Name := [], ImageURL := []\<rparr>) = []" by simp
  from h Render_missing_name [OF h] show ?thesis by (rule conjI)
qed

text \<open>
  C3. For every WorkflowTemplate with a non-empty Name and an empty ImageURL, Render
  returns the MissingImageURL error and the empty output: the second check, reached
  only when the Name check has passed.
\<close>

theorem Render_missing_image_url:
  assumes "Name wt \<noteq> []" and "ImageURL wt = []"
  shows "WorkflowTemplate_Render wt = (wt, ([], Some ErrMissingImageURL))"
  using assms by (simp add: WorkflowTemplate_Render_def)

theorem Render_missing_image_url_witness:
  "Name (example_wt\<lparr>ImageURL := []\<rparr>) \<noteq> []
   \<and> ImageURL (example_wt\<lparr>ImageURL := []\<rparr>) = []
   \<and> WorkflowTemplate_Render (example_wt\<lparr>ImageURL := []\<rparr>)
       = (example_wt\<lparr>ImageURL := []\<rparr>, ([], Some ErrMissingImageURL))"
proof -
  have h1: "Name (example_wt\<lparr>ImageURL := []\<rparr>) \<noteq> []"
    by (simp add: example_wt_fields)
  have h2: "ImageURL (example_wt\<lparr>ImageURL := []\<rparr>) = []" by simp
  from h1 h2 Render_missing_image_url [OF h1 h2] show ?thesis by blast
qed

text \<open>
  C4. When Render returns a validation error (MissingName or MissingImageURL) the
  object is unchanged. The object changes only when both checks have passed and
  DeviceTemplateName was empty, and then Render returns no error; no field other than
  DeviceTemplateName is ever modified.
\<close>

theorem Render_validation_error_leaves_object:
  assumes "WorkflowTemplate_Render wt = (wt', (out, err))"
  shows "(err = Some ErrMissingName \<or> err = Some ErrMissingImageURL \<longrightarrow> wt' = wt)
       \<and> (wt' \<noteq> wt \<longrightarrow>
            Name wt \<noteq> [] \<and> ImageURL wt \<noteq> [] \<and> DeviceTemplateName wt = [] \<and> err = None)
       \<and> wt' = wt\<lparr>DeviceTemplateName := DeviceTemplateName wt'\<rparr>"
proof (cases "Name wt = [] \<or> ImageURL wt = []")
  case True
  with assms have "wt' = wt"
    by (auto simp: WorkflowTemplate_Render_def split: if_splits)
  then show ?thesis by simp
next
  case False
  with assms Render_passed [of wt] have "wt' = defaulted wt" and "err = None"
    by simp_all
  with False show ?thesis by (auto simp: defaulted_def)
qed

theorem Render_validation_error_leaves_object_witness:
  "WorkflowTemplate_Render (example_wt\<lparr>ImageURL := [], DeviceTemplateName := []\<rparr>)
     = (example_wt\<lparr>ImageURL := [], DeviceTemplateName := []\<rparr>, ([], Some ErrMissingImageURL))
   \<and> DeviceTemplateName (example_wt\<lparr>ImageURL := [], DeviceTemplateName := []\<rparr>) = []"
proof -
  let ?w = "example_wt\<lparr>ImageURL := [], DeviceTemplateName := []\<rparr>"
  obtain w' out err where r: "WorkflowTemplate_Render ?w = (w', (out, err))"
    by (metis prod.exhaust)
  have e: "err = Some ErrMissingImageURL" and o: "out = []"
    using r by (simp_all add: WorkflowTemplate_Render_def example_wt_fields)
  from Render_validation_error_leaves_object [OF r] e have "w' = ?w" by blast
  with r e o show ?thesis by simp
qed

section \<open>The claims about a successful rendering\<close>

text \<open>
  C10. For every WorkflowTemplate with non-empty Name and ImageURL, Render returns no
  error: the fixed template parses, and executing it fails on no object, since every
  action names a field of the struct. So the only errors Render ever returns are the two
  sentinels.
\<close>

theorem Render_errors_are_sentinels:
  "(\<exists>tpl. Parse workflowTemplate = Inr tpl
          \<and> (\<exists>buf. Execute tpl (WorkflowTemplate_field wt) = Inr buf))
   \<and> (Name wt \<noteq> [] \<and> ImageURL wt \<noteq> [] \<longrightarrow> snd (snd (WorkflowTemplate_Render wt)) = None)
   \<and> snd (snd (WorkflowTemplate_Render wt)) \<in> {None, Some ErrMissingName, Some ErrMissingImageURL}"
proof (intro conjI impI)
  show "\<exists>tpl. Parse workflowTemplate = Inr tpl
          \<and> (\<exists>buf. Execute tpl (WorkflowTemplate_field wt) = Inr buf)"
    using Parse_workflowTemplate Execute_workflowTemplate by blast
next
  assume "Name wt \<noteq> [] \<and> ImageURL wt \<noteq> []"
  then show "snd (snd (WorkflowTemplate_Render wt)) = None"
    by (simp add: Render_passed)
next
  show "snd (snd (WorkflowTemplate_Render wt)) \<in> {None, Some ErrMissingName, Some ErrMissingImageURL}"
  proof (cases "Name wt = []")
    case True
    then show ?thesis by (simp add: WorkflowTemplate_Render_def)
  next
    case n: False
    show ?thesis
    proof (cases "ImageURL wt = []")
      case True
      with n show ?thesis by (simp add: WorkflowTemplate_Render_def)
    next
      case False
      with n show ?thesis by (simp add: Render_passed)
    qed
  qed
qed

theorem Render_errors_are_sentinels_witness:
  "Name example_wt \<noteq> [] \<and> ImageURL example_wt \<noteq> []
   \<and> snd (snd (WorkflowTemplate_Render example_wt)) = None"
proof -
  have h: "Name example_wt \<noteq> [] \<and> ImageURL example_wt \<noteq> []"
    by (simp add: example_wt_fields)
  with Render_errors_are_sentinels [of example_wt] show ?thesis by blast
qed

text \<open>
  C1. For every WorkflowTemplate with non-empty Name and ImageURL and an empty
  DeviceTemplateName, Render leaves the object with DeviceTemplateName equal to the
  literal text \<open>{{.device_1}}\<close>, and returns without error an output that is the
  execution of the template against the object so changed: the literal stands in it,
  unresolved, as the value of the \<open>worker\<close> key, right after the two name lines.
\<close>

theorem Render_fills_DeviceTemplateName:
  assumes "Name wt \<noteq> []" and "ImageURL wt \<noteq> []" and "DeviceTemplateName wt = []"
  shows \<open>\<exists>tpl out post.
           WorkflowTemplate_Render wt = (wt\<lparr>DeviceTemplateName := ''{{.device_1}}''\<rparr>, (out, None))
         \<and> Parse workflowTemplate = Inr tpl
         \<and> Execute tpl (WorkflowTemplate_field (wt\<lparr>DeviceTemplateName := ''{{.device_1}}''\<rparr>)) = Inr out
         \<and> out = (''\<newline>'' @
                  ''version: "0.1"\<newline>'' @
                  ''name: '' @ Name wt @ ''\<newline>'' @
                  ''global_timeout: 6000\<newline>'' @
                  ''tasks:\<newline>'' @
                  ''  - name: "'' @ Name wt @ ''"\<newline>'') @
                 ''    worker: "{{.device_1}}"\<newline>'' @ post\<close>
proof -
  let ?w = "wt\<lparr>DeviceTemplateName := ''{{.device_1}}''\<rparr>"
  have d: "defaulted wt = ?w"
    using assms(3) by (simp add: defaulted_def placeholder_def)
  have r: "WorkflowTemplate_Render wt = (?w, (workflowTemplate_output ?w, None))"
    using Render_passed [OF assms(1,2)] d by simp
  have \<open>\<exists>post. workflowTemplate_output ?w =
           (''\<newline>'' @
            ''version: "0.1"\<newline>'' @
            ''name: '' @ Name wt @ ''\<newline>'' @
            ''global_timeout: 6000\<newline>'' @
            ''tasks:\<newline>'' @
            ''  - name: "'' @ Name wt @ ''"\<newline>'') @
           ''    worker: "{{.device_1}}"\<newline>'' @ post\<close>
    by (simp add: workflowTemplate_output_def)
  with r Parse_workflowTemplate Execute_workflowTemplate [of ?w] show ?thesis
    by blast
qed

theorem Render_fills_DeviceTemplateName_witness:
  "Name (example_wt\<lparr>DeviceTemplateName := []\<rparr>) \<noteq> []
   \<and> ImageURL (example_wt\<lparr>DeviceTemplateName := []\<rparr>) \<noteq> []
   \<and> DeviceTemplateName (example_wt\<lparr>DeviceTemplateName := []\<rparr>) = []
   \<and> DeviceTemplateName (fst (WorkflowTemplate_Render (example_wt\<lparr>DeviceTemplateName := []\<rparr>)))
       = ''{{.device_1}}''"
proof -
  let ?w = "example_wt\<lparr>DeviceTemplateName := []\<rparr>"
  have h1: "Name ?w \<noteq> []" and h2: "ImageURL ?w \<noteq> []" and h3: "DeviceTemplateName ?w = []"
    by (simp_all add: example_wt_fields)
  from Render_fills_DeviceTemplateName [OF h1 h2 h3]
  obtain out where "WorkflowTemplate_Render ?w = (?w\<lparr>DeviceTemplateName := ''{{.device_1}}''\<rparr>, (out, None))"
    by blast
  then have "DeviceTemplateName (fst (WorkflowTemplate_Render ?w)) = ''{{.device_1}}''"
    by simp
  with h1 h2 h3 show ?thesis by blast
qed

text \<open>
  C7. For every WorkflowTemplate that passes validation and whose DeviceTemplateName is
  already non-empty, Render returns the same output twice in a row and changes the
  object in neither call.
\<close>

theorem Render_idempotent:
  assumes "Name wt \<noteq> []" and "ImageURL wt \<noteq> []" and "DeviceTemplateName wt \<noteq> []"
  shows "\<exists>out. WorkflowTemplate_Render wt = (wt, (out, None))
             \<and> WorkflowTemplate_Render (fst (WorkflowTemplate_Render wt)) = (wt, (out, None))"
  using Render_passed [OF assms(1,2)] defaulted_idem [OF assms(3)] by simp

theorem Render_idempotent_witness:
  "Name example_wt \<noteq> [] \<and> ImageURL example_wt \<noteq> [] \<and> DeviceTemplateName example_wt \<noteq> []
   \<and> WorkflowTemplate_Render (fst (WorkflowTemplate_Render example_wt))
       = WorkflowTemplate_Render example_wt"
proof -
  have h1: "Name example_wt \<noteq> []" and h2: "ImageURL example_wt \<noteq> []"
    and h3: "DeviceTemplateName example_wt \<noteq> []"
    by (simp_all add: example_wt_fields)
  from Render_idempotent [OF h1 h2 h3]
  have "WorkflowTemplate_Render (fst (WorkflowTemplate_Render example_wt))
        = WorkflowTemplate_Render example_wt"
    by auto
  with h1 h2 h3 show ?thesis by blast
qed

section \<open>The claims about the hardware task renderer\<close>

text \<open>
  C6. For every HardwareProvisionTasks value Render returns no error and the fixed
  three-step text: power off, then the one-time boot-device action for PXE with the
  object's EFIBoot printed as \<open>true\<close> or \<open>false\<close>, then power on. The two outputs
  differ in that one word only.
\<close>

theorem HardwareProvisionTasks_Render_steps:
  \<open>HardwareProvisionTasks_Render wt =
     (''\<newline>'' @
      ''- powerAction: "off"\<newline>'' @
      ''- oneTimeBootDeviceAction:\<newline>'' @
      ''    device:\<newline>'' @
      ''    - pxe\<newline>'' @
      ''    efiBoot: '' @ (if EFIBoot wt then ''true'' else ''false'') @ ''\<newline>'' @
      ''- powerAction: "on"\<newline>'', None)\<close>
  by (simp add: Render_hardware hardwareProvisionTasks_output_def)

theorem HardwareProvisionTasks_Render_steps_witness:
  \<open>HardwareProvisionTasks_Render \<lparr>EFIBoot = True\<rparr> =
     (''\<newline>'' @
      ''- powerAction: "off"\<newline>'' @
      ''- oneTimeBootDeviceAction:\<newline>'' @
      ''    device:\<newline>'' @
      ''    - pxe\<newline>'' @
      ''    efiBoot: true\<newline>'' @
      ''- powerAction: "on"\<newline>'', None)
   \<and> HardwareProvisionTasks_Render \<lparr>EFIBoot = False\<rparr> =
     (''\<newline>'' @
      ''- powerAction: "off"\<newline>'' @
      ''- oneTimeBootDeviceAction:\<newline>'' @
      ''    device:\<newline>'' @
      ''    - pxe\<newline>'' @
      ''    efiBoot: false\<newline>'' @
      ''- powerAction: "on"\<newline>'', None)\<close>
  using HardwareProvisionTasks_Render_steps [of "\<lparr>EFIBoot = True\<rparr>"]
        HardwareProvisionTasks_Render_steps [of "\<lparr>EFIBoot = False\<rparr>"]
  by simp

section \<open>Lines of a rendered text\<close>

text \<open>
  \<open>lines_of\<close> cuts a text at its newline characters, as \<open>strings.Split(s, "\n")\<close>
  does: a text that ends in a newline has an empty last line. \<open>join_lines\<close> writes
  lines back, each followed by a newline.
\<close>

fun lines_of :: "string \<Rightarrow> string list" where
  "lines_of [] = [[]]"
| "lines_of (c # cs) =
     (if c = CHR ''\<newline>'' then [] # lines_of cs
      else (case lines_of cs of [] \<Rightarrow> [[c]] | l # ls \<Rightarrow> (c # l) # ls))"

fun join_lines :: "string list \<Rightarrow> string" where
  "join_lines [] = []"
| "join_lines (l # ls) = l @ CHR ''\<newline>'' # join_lines ls"

lemma lines_of_line:
  "CHR ''\<newline>'' \<notin> set l \<Longrightarrow> lines_of (l @ CHR ''\<newline>'' # rest) = l # lines_of rest"
  by (induction l) auto

lemma lines_of_join_lines:
  "list_all (\<lambda>l. CHR ''\<newline>'' \<notin> set l) ls \<Longrightarrow> lines_of (join_lines ls) = ls @ [[]]"
  by (induction ls) (simp_all add: lines_of_line)

lemma sublist_join_lines:
  assumes "l \<in> set ls" and "sublist x l"
  shows "sublist x (join_lines ls)"
proof -
  have "sublist l (join_lines ls)" using assms(1)
  proof (induction ls)
    case Nil
    then show ?case by simp
  next
    case (Cons a ls)
    show ?case
    proof (cases "l = a")
      case True
      then show ?thesis by (simp add: sublist_append_rightI)
    next
      case False
      with Cons have "sublist l (join_lines ls)" by simp
      moreover have "sublist (join_lines ls) ((a @ [CHR ''\<newline>'']) @ join_lines ls)"
        by (rule sublist_append_leftI)
      ultimately have "sublist l ((a @ [CHR ''\<newline>'']) @ join_lines ls)"
        by (rule sublist_order.order_trans)
      then show ?thesis by simp
    qed
  qed
  with assms(2) show ?thesis by (rule sublist_order.order_trans)
qed

definition example_lines :: "string list" where
  \<open>example_lines =
    ['''',
     ''version: "0.1"'',
     ''name: m1'',
     ''global_timeout: 6000'',
     ''tasks:'',
     ''  - name: "m1"'',
     ''    worker: "worker-1"'',
     ''    volumes:'',
     ''      - /dev:/dev'',
     ''      - /dev/console:/dev/console'',
     ''      - /lib/firmware:/lib/firmware:ro'',
     ''    actions:'',
     ''      - name: "stream-image"'',
     ''        image: quay.io/tinkerbell-actions/image2disk:v1.0.0'',
     ''        timeout: 600'',
     ''        environment:'',
     ''          IMG_URL: http://x/img'',
     ''          DEST_DISK: /dev/sda'',
     ''          COMPRESSED: true'',
     ''      - name: "create-user"'',
     ''        image: quay.io/tinkerbell-actions/cexec:v1.0.0'',
     ''        timeout: 90'',
     ''        environment:'',
     ''          BLOCK_DEVICE: /dev/sda1'',
     ''          FS_TYPE: ext4'',
     ''          CHROOT: y'',
     ''          DEFAULT_INTERPRETER: "/bin/sh -c"'',
     ''          CMD_LINE: "useradd -p $(openssl passwd -1 tink) -s /bin/bash -d /home/tink/ -m -G sudo tink"'',
     ''      - name: "create-init-script"'',
     ''        image: quay.io/tinkerbell-actions/writefile:v1.0.0'',
     ''        timeout: 90'',
     ''        environment:'',
     ''            DEST_DISK: /dev/sda1'',
     ''            FS_TYPE: ext4'',
     ''            DEST_PATH: /root/cluster-setup.sh'',
     ''            UID: 0'',
     ''            GID: 0'',
     ''            MODE: 0700'',
     ''            DIRMODE: 0700'',
     ''            CONTENTS: |'',
     ''              #!/bin/bash'',
     ''              tdnf install -y apparmor-parser apparmor-utils'',
     ''              iptables -I INPUT -p tcp --dport 6443 -j ACCEPT'',
     ''              rm /root/cluster-setup.sh'',
     ''      - name: "create-init-script-service"'',
     ''        image: quay.io/tinkerbell-actions/writefile:v1.0.0'',
     ''        timeout: 90'',
     ''        environment:'',
     ''            DEST_DISK: /dev/sda1'',
     ''            FS_TYPE: ext4'',
     ''            DEST_PATH: /usr/local/lib/systemd/system/cluster-setup.service'',
     ''            UID: 0'',
     ''            GID: 0'',
     ''            MODE: 0600'',
     ''            DIRMODE: 0600'',
     ''            CONTENTS: |'',
     ''              [Unit]'',
     ''              Before=systemd-user-sessions.service'',
     ''              Wants=network-online.target'',
     ''              After=network-online.target'',
     ''              ConditionPathExists=/root/cluster-setup.sh'',
     ''              [Service]'',
     ''              Type=oneshot'',
     ''              ExecStart=/root/cluster-setup.sh'',
     ''              RemainAfterExit=yes'',
     ''              [Install]'',
     ''              WantedBy=multi-user.target'',
     ''      - name: "enable-init-script"'',
     ''        image: quay.io/tinkerbell-actions/cexec:v1.0.0'',
     ''        timeout: 90'',
     ''        environment:'',
     ''            BLOCK_DEVICE: /dev/sda1'',
     ''            FS_TYPE: ext4'',
     ''            CHROOT: y'',
     ''            DEFAULT_INTERPRETER: "/bin/sh -c"'',
     ''            CMD_LINE: "systemctl enable cluster-setup.service"'',
     ''      - name: "add-tink-cloud-init-config"'',
     ''        image: quay.io/tinkerbell-actions/writefile:v1.0.0'',
     ''        timeout: 90'',
     ''        environment:'',
     ''          DEST_DISK: /dev/sda1'',
     ''          FS_TYPE: ext4'',
     ''          DEST_PATH: /etc/cloud/cloud.cfg.d/10_tinkerbell.cfg'',
     ''          UID: 0'',
     ''          GID: 0'',
     ''          MODE: 0600'',
     ''          DIRMODE: 0700'',
     ''          CONTENTS: |'',
     ''            datasource:'',
     ''              Ec2:'',
     ''                metadata_urls: ["http://meta"]'',
     ''                strict_id: false'',
     ''            system_info:'',
     ''              default_user:'',
     ''                name: tink'',
     ''                groups: [wheel, adm]'',
     ''                sudo: ["ALL=(ALL) NOPASSWD:ALL"]'',
     ''                shell: /bin/bash'',
     ''            manage_etc_hosts: localhost'',
     ''            warnings:'',
     ''              dsid_missing_source: off'',
     ''      - name: "add-tink-cloud-init-ds-config"'',
     ''        image: quay.io/tinkerbell-actions/writefile:v1.0.0'',
     ''        timeout: 90'',
     ''        environment:'',
     ''          DEST_DISK: /dev/sda1'',
     ''          FS_TYPE: ext4'',
     ''          DEST_PATH: /etc/cloud/ds-identify.cfg'',
     ''          UID: 0'',
     ''          GID: 0'',
     ''          MODE: 0600'',
     ''          DIRMODE: 0700'',
     ''          CONTENTS: |'',
     ''            datasource: Ec2'',
     ''      - name: "kexec-image"'',
     ''        image: quay.io/tinkerbell-actions/kexec:v1.0.0'',
     ''        timeout: 90'',
     ''        pid: host'',
     ''        environment:'',
     ''          BLOCK_DEVICE: /dev/sda1'',
     ''          FS_TYPE: ext4'',
     ''          KERNEL_PATH: /boot/vmlinuz-5.15.86.1-1.cm2'',
     ''          INITRD_PATH: /boot/initrd.img-5.15.86.1-1.cm2'',
     ''          CMD_LINE: "root=/dev/sda1 rw"'']\<close>
section \<open>The worked example of the specification\<close>

text \<open>
  The lines of the rendered text that open an item of the \<open>actions\<close> list: they are
  the lines that start, at the indentation of that list, with \<open>- name:\<close>.
\<close>

definition action_lines :: "string \<Rightarrow> string list" where
  "action_lines out = filter (prefix ''      - name: '') (lines_of out)"

lemma example_output: "workflowTemplate_output example_wt = join_lines example_lines"
  by (simp add: workflowTemplate_output_def example_wt_fields example_lines_def)

lemma example_lines_of: "lines_of (join_lines example_lines) = example_lines @ [[]]"
  by (rule lines_of_join_lines) (simp add: example_lines_def)

lemma example_action_lines:
  \<open>action_lines (join_lines example_lines) =
     [''      - name: "stream-image"'',
      ''      - name: "create-user"'',
      ''      - name: "create-init-script"'',
      ''      - name: "create-init-script-service"'',
      ''      - name: "enable-init-script"'',
      ''      - name: "add-tink-cloud-init-config"'',
      ''      - name: "add-tink-cloud-init-ds-config"'',
      ''      - name: "kexec-image"'']\<close>
  unfolding action_lines_def example_lines_of
  by (simp add: example_lines_def)

lemma example_contains:
  \<open>sublist ''name: m1'' (join_lines example_lines)\<close>
  \<open>sublist ''global_timeout: 6000'' (join_lines example_lines)\<close>
  \<open>sublist ''worker: "worker-1"'' (join_lines example_lines)\<close>
  \<open>sublist ''IMG_URL: http://x/img'' (join_lines example_lines)\<close>
  \<open>sublist ''DEST_DISK: /dev/sda'' (join_lines example_lines)\<close>
  \<open>sublist ''BLOCK_DEVICE: /dev/sda1'' (join_lines example_lines)\<close>
  \<open>sublist ''metadata_urls: ["http://meta"]'' (join_lines example_lines)\<close>
proof -
  show \<open>sublist ''name: m1'' (join_lines example_lines)\<close>
    by (rule sublist_join_lines [where l = \<open>''name: m1''\<close>]) (simp_all add: example_lines_def)
  show \<open>sublist ''global_timeout: 6000'' (join_lines example_lines)\<close>
    by (rule sublist_join_lines [where l = \<open>''global_timeout: 6000''\<close>])
       (simp_all add: example_lines_def)
  show \<open>sublist ''worker: "worker-1"'' (join_lines example_lines)\<close>
    using sublist_appendI [of \<open>''worker: "worker-1"''\<close> \<open>''    ''\<close> \<open>[]\<close>]
    by (intro sublist_join_lines [where l = \<open>''    worker: "worker-1"''\<close>])
       (simp_all add: example_lines_def)
  show \<open>sublist ''IMG_URL: http://x/img'' (join_lines example_lines)\<close>
    using sublist_appendI [of \<open>''IMG_URL: http://x/img''\<close> \<open>''          ''\<close> \<open>[]\<close>]
    by (intro sublist_join_lines [where l = \<open>''          IMG_URL: http://x/img''\<close>])
       (simp_all add: example_lines_def)
  show \<open>sublist ''DEST_DISK: /dev/sda'' (join_lines example_lines)\<close>
    using sublist_appendI [of \<open>''DEST_DISK: /dev/sda''\<close> \<open>''          ''\<close> \<open>[]\<close>]
    by (intro sublist_join_lines [where l = \<open>''          DEST_DISK: /dev/sda''\<close>])
       (simp_all add: example_lines_def)
  show \<open>sublist ''BLOCK_DEVICE: /dev/sda1'' (join_lines example_lines)\<close>
    using sublist_appendI [of \<open>''BLOCK_DEVICE: /dev/sda1''\<close> \<open>''          ''\<close> \<open>[]\<close>]
    by (intro sublist_join_lines [where l = \<open>''          BLOCK_DEVICE: /dev/sda1''\<close>])
       (simp_all add: example_lines_def)
  show \<open>sublist ''metadata_urls: ["http://meta"]'' (join_lines example_lines)\<close>
    using sublist_appendI [of \<open>''metadata_urls: ["http://meta"]''\<close> \<open>''                ''\<close> \<open>[]\<close>]
    by (intro sublist_join_lines [where l = \<open>''                metadata_urls: ["http://meta"]''\<close>])
       (simp_all add: example_lines_def)
qed

text \<open>
  C5. For the object with Name \<open>m1\<close>, ImageURL \<open>http://x/img\<close>, DestDisk
  \<open>/dev/sda\<close>, DestPartition \<open>/dev/sda1\<close>, MetadataURL \<open>http://meta\<close> and
  DeviceTemplateName \<open>worker-1\<close>, Render succeeds and leaves the object as it was.
  Its output is the text of \<open>example_lines\<close>, line by line; it contains the seven
  texts the specification lists, and its action lines are the eight named actions in
  the fixed order.
\<close>

theorem Render_example:
  \<open>\<exists>out. WorkflowTemplate_Render example_wt = (example_wt, (out, None))
        \<and> out = join_lines example_lines
        \<and> sublist ''name: m1'' out
        \<and> sublist ''worker: "worker-1"'' out
        \<and> sublist ''IMG_URL: http://x/img'' out
        \<and> sublist ''DEST_DISK: /dev/sda'' out
        \<and> sublist ''BLOCK_DEVICE: /dev/sda1'' out
        \<and> sublist ''metadata_urls: ["http://meta"]'' out
        \<and> sublist ''global_timeout: 6000'' out
        \<and> action_lines out =
            [''      - name: "stream-image"'',
             ''      - name: "create-user"'',
             ''      - name: "create-init-script"'',
             ''      - name: "create-init-script-service"'',
             ''      - name: "enable-init-script"'',
             ''      - name: "add-tink-cloud-init-config"'',
             ''      - name: "add-tink-cloud-init-ds-config"'',
             ''      - name: "kexec-image"'']\<close>
proof -
  have "WorkflowTemplate_Render example_wt = (example_wt, (join_lines example_lines, None))"
    using Render_passed [of example_wt] defaulted_idem [of example_wt]
    by (simp add: example_wt_fields example_output)
  then show ?thesis
    using example_contains example_action_lines by blast
qed

section \<open>The renderers in the program state\<close>

text \<open>
  \<open>ErrMissingName\<close> and \<open>ErrMissingImageURL\<close> are declared with \<open>var\<close>: they are
  package-level variables, exported, which \<open>Render\<close> reads when it returns. The
  receivers are pointers into the heap. A \<open>store\<close> holds what a call can reach: the
  two variables (\<open>None\<close> is \<open>nil\<close>) and, by address, the objects of the two struct
  types. Whatever else the program state holds (a clock, a random source, the
  variables of other packages) is the extension of the record, on which the renderers
  are defined without looking at it.

  \<open>initial_store\<close> gives the two variables the values of their declarations.
\<close>

record store =
  ErrMissingName_var :: "error option"
  ErrMissingImageURL_var :: "error option"
  workflows :: "nat \<Rightarrow> WorkflowTemplate"
  hardware :: "nat \<Rightarrow> HardwareProvisionTasks"


text \<open>
  \<open>(*WorkflowTemplate).Render\<close> on the object at address \<open>p\<close>: the statements of
  the source in their order, with the two \<open>return "", Err...\<close> reading the variables
  and the assignment to \<open>wt.DeviceTemplateName\<close> writing the heap.
\<close>

definition WorkflowTemplate_Render_store ::
  "'z store_scheme \<Rightarrow> nat \<Rightarrow> 'z store_scheme \<times> result" where
  "WorkflowTemplate_Render_store s p =
     (if Name (workflows s p) = [] then (s, ([], ErrMissingName_var s))
      else if ImageURL (workflows s p) = [] then (s, ([], ErrMissingImageURL_var s))
      else
        let s' = (if DeviceTemplateName (workflows s p) = []
                  then s\<lparr>workflows :=
                          (workflows s)(p := (workflows s p)\<lparr>DeviceTemplateName := ''{{.device_1}}''\<rparr>)\<rparr>
                  else s)
        in case Parse workflowTemplate of
             Inl err \<Rightarrow> (s', ([], Some (Wrap err ''unable to parse template'')))
           | Inr tpl \<Rightarrow>
               (case Execute tpl (WorkflowTemplate_field (workflows s' p)) of
                  Inl err \<Rightarrow> (s', ([], Some (Wrap err ''unable to execute template'')))
                | Inr buf \<Rightarrow> (s', (buf, None))))"


text \<open>
  With the two variables at their declared values the call in the store is the call
  on the object: the renderer of the earlier sections, applied to the object at \<open>p\<close>.
\<close>

lemma Render_store_declared:
  assumes "ErrMissingName_var s = Some ErrMissingName"
    and "ErrMissingImageURL_var s = Some ErrMissingImageURL"
  shows "WorkflowTemplate_Render_store s p =
           (s\<lparr>workflows := (workflows s)(p := fst (WorkflowTemplate_Render (workflows s p)))\<rparr>,
            snd (WorkflowTemplate_Render (workflows s p)))"
  using assms
  by (simp add: WorkflowTemplate_Render_store_def WorkflowTemplate_Render_def
                Parse_workflowTemplate Execute_workflowTemplate Let_def)








section \<open>A reader for the block YAML of the rendered texts\<close>

text \<open>
  To say that a rendered text is syntactically valid YAML, this section gives a reader
  for the fragment of YAML 1.2 in which the two templates are written: block mappings
  with plain keys, block sequences (an item may open a mapping on its own line),
  plain and double-quoted scalars on one line, and literal block scalars (\<open>|\<close>).
  The reader has three verdicts. \<open>Ok\<close> carries the document and is given only to
  texts of the fragment, which are valid YAML. \<open>SyntaxError\<close> is given only where
  every earlier line has been read and the line at hand is an error in YAML itself:
  in the value of a mapping entry, text after the closing quote of a double-quoted
  scalar, or a plain scalar that holds a colon followed by a space or ends in a colon.
  Everything else (comments, flow collections, anchors, tags, escapes, scalars over
  several lines, blank lines inside the document, characters outside printable ASCII,
  unusual indentation) is \<open>Unsupported\<close>: the reader does not judge it.
\<close>

datatype yaml =
    Null
  | Scalar string
  | Literal "string list"
  | Seq "yaml list"
  | Mapping "(string \<times> yaml) list"

datatype 'a verdict = Ok 'a | SyntaxError | Unsupported

text \<open>A line is read as its indentation and what follows the indentation.\<close>

type_synonym tok = "nat \<times> string"


definition is_space :: "char \<Rightarrow> bool" where
  "is_space c \<longleftrightarrow> c = CHR '' ''"



text \<open>
  \<open>split_key\<close> cuts a line at the first colon that is followed by a space or ends
  the line: the key before it, and what follows the colon. \<open>item_of\<close> takes the
  dash off a sequence item.
\<close>

fun split_key :: "string \<Rightarrow> (string \<times> string) option" where
  "split_key [] = None"
| "split_key (c # cs) =
     (if c = CHR '':'' \<and> (case cs of [] \<Rightarrow> True | d # _ \<Rightarrow> d = CHR '' '') then Some ([], cs)
      else (case split_key cs of None \<Rightarrow> None | Some (k, v) \<Rightarrow> Some (c # k, v)))"

definition is_key :: "string \<Rightarrow> bool" where
  "is_key k \<longleftrightarrow> k \<noteq> [] \<and> length k \<le> 1024 \<and> list_all isAlphaNumeric k"

fun item_of :: "string \<Rightarrow> string option" where
  "item_of [] = None"
| "item_of [c] = (if c = CHR ''-'' then Some [] else None)"
| "item_of (c # d # r) = (if c = CHR ''-'' \<and> d = CHR '' '' then Some r else None)"

text \<open>
  Scalars on one line. A double-quoted scalar runs to the next quote; a backslash
  (an escape) or a missing closing quote is outside the fragment. After the closing
  quote only spaces may follow. A plain scalar does not start with an indicator
  character; a space followed by \<open>#\<close> (a comment) is outside the fragment, and a
  colon followed by a space, or a colon at the end, is the error \<open>mapping values are
  not allowed here\<close>.
\<close>

definition indicator :: "char \<Rightarrow> bool" where
  \<open>indicator c \<longleftrightarrow> c \<in> set ''-?:,[]{}#&*!|>"%@`'' \<or> c = CHR 0x27\<close>

fun scan_quoted :: "string \<Rightarrow> (string \<times> string) option" where
  "scan_quoted [] = None"
| "scan_quoted (c # cs) =
     (if c = CHR 0x22 then Some ([], cs)
      else if c = CHR 0x5C then None
      else (case scan_quoted cs of None \<Rightarrow> None | Some (b, r) \<Rightarrow> Some (c # b, r)))"

fun plain_scan :: "string \<Rightarrow> unit verdict" where
  "plain_scan [] = Ok ()"
| "plain_scan [c] =
     (if c = CHR '' '' then Unsupported else if c = CHR '':'' then SyntaxError else Ok ())"
| "plain_scan (c # d # cs) =
     (if c = CHR '' '' \<and> d = CHR ''#'' then Unsupported
      else if c = CHR '':'' \<and> d = CHR '' '' then SyntaxError
      else plain_scan (d # cs))"

definition after_quoted :: "string \<Rightarrow> string \<Rightarrow> yaml verdict" where
  "after_quoted b r =
     (case dropWhile is_space r of
        [] \<Rightarrow> Ok (Scalar b)
      | c # _ \<Rightarrow> if c = CHR ''#'' \<and> r \<noteq> dropWhile is_space r then Unsupported else SyntaxError)"

fun parse_value :: "string \<Rightarrow> yaml verdict" where
  "parse_value [] = Ok Null"
| "parse_value (c # cs) =
     (if c = CHR 0x22
      then (case scan_quoted cs of None \<Rightarrow> Unsupported | Some (b, r) \<Rightarrow> after_quoted b r)
      else if indicator c then Unsupported
      else (case plain_scan (c # cs) of
              Ok _ \<Rightarrow> Ok (Scalar (c # cs))
            | SyntaxError \<Rightarrow> SyntaxError
            | Unsupported \<Rightarrow> Unsupported))"

text \<open>
  In a sequence item a quoted scalar may be the key of a mapping, so there the reader
  gives no \<open>SyntaxError\<close>.
\<close>

definition item_value :: "string \<Rightarrow> yaml verdict" where
  "item_value r = (case parse_value r of SyntaxError \<Rightarrow> Unsupported | v \<Rightarrow> v)"

text \<open>
  Structure by indentation. The lines that belong to a sequence item at indentation
  \<open>n\<close> are the following lines indented deeper than \<open>n\<close>; those that belong to
  a mapping entry are the deeper lines and the sequence items at \<open>n\<close> itself. The
  lines of a literal block scalar are taken as they are, none indented less than the
  first.
\<close>

definition deeper :: "nat \<Rightarrow> tok \<Rightarrow> bool" where
  "deeper n t \<longleftrightarrow> n < fst t"

definition under :: "nat \<Rightarrow> tok \<Rightarrow> bool" where
  "under n t \<longleftrightarrow> n < fst t \<or> (fst t = n \<and> item_of (snd t) \<noteq> None)"

definition literal :: "nat \<Rightarrow> tok list \<Rightarrow> yaml verdict" where
  "literal n ts =
     (case ts of
        [] \<Rightarrow> Ok (Literal [])
      | t # _ \<Rightarrow>
          if list_all (\<lambda>u. n < fst u \<and> fst t \<le> fst u) ts
          then Ok (Literal (map (\<lambda>u. replicate (fst u - fst t) (CHR '' '') @ snd u) ts))
          else Unsupported)"

definition tsize :: "tok list \<Rightarrow> nat" where
  "tsize ts = sum_list (map (\<lambda>t. Suc (length (snd t))) ts)"

lemma tsize_Nil [simp]: "tsize [] = 0"
  by (simp add: tsize_def)

lemma tsize_Cons [simp]: "tsize (t # ts) = Suc (length (snd t)) + tsize ts"
  by (simp add: tsize_def)

lemma tsize_takeWhile: "tsize (takeWhile P ts) \<le> tsize ts"
  by (induction ts) auto

lemma tsize_dropWhile: "tsize (dropWhile P ts) \<le> tsize ts"
  by (induction ts) auto

lemma tsize_takeWhile_less [simp]: "2 * tsize (takeWhile P ts) < Suc (a + 2 * tsize ts)"
  using tsize_takeWhile [of P ts] by simp

lemma tsize_dropWhile_less [simp]: "2 * tsize (dropWhile P ts) < Suc (Suc (a + 2 * tsize ts))"
  using tsize_dropWhile [of P ts] by simp

lemma item_of_shorter: "item_of c = Some r \<Longrightarrow> r \<noteq> [] \<Longrightarrow> Suc (length r) < length c"
  by (induction c rule: item_of.induct) (auto split: if_splits)

lemma compact_smaller:
  assumes "item_of c = Some r" and "\<exists>x\<in>set r. \<not> is_space x"
  shows "Suc (2 * length (dropWhile is_space r) + 2 * tsize (takeWhile P ts))
         < 2 * length c + 2 * tsize ts"
proof -
  from assms(2) have "r \<noteq> []" by auto
  with assms(1) have "Suc (length r) < length c" by (rule item_of_shorter)
  moreover have "length (dropWhile is_space r) \<le> length r" by (rule length_dropWhile_le)
  moreover have "tsize (takeWhile P ts) \<le> tsize ts" by (rule tsize_takeWhile)
  ultimately show ?thesis by simp
qed

function parse_node :: "tok list \<Rightarrow> yaml verdict"
  and parse_seq :: "nat \<Rightarrow> tok list \<Rightarrow> yaml list verdict"
  and parse_map :: "nat \<Rightarrow> tok list \<Rightarrow> (string \<times> yaml) list verdict"
where
  "parse_node [] = Ok Null"
| "parse_node (t # ts) =
     (if \<not> list_all (\<lambda>u. fst t \<le> fst u) ts then Unsupported
      else if item_of (snd t) \<noteq> None
      then (case parse_seq (fst t) (t # ts) of
              Ok vs \<Rightarrow> Ok (Seq vs) | SyntaxError \<Rightarrow> SyntaxError | Unsupported \<Rightarrow> Unsupported)
      else if split_key (snd t) \<noteq> None
      then (case parse_map (fst t) (t # ts) of
              Ok es \<Rightarrow> Ok (Mapping es) | SyntaxError \<Rightarrow> SyntaxError | Unsupported \<Rightarrow> Unsupported)
      else Unsupported)"
| "parse_seq n [] = Ok []"
| "parse_seq n (t # ts) =
     (if fst t \<noteq> n then Unsupported
      else case item_of (snd t) of
        None \<Rightarrow> Unsupported
      | Some r \<Rightarrow>
          (case (if dropWhile is_space r = [] then parse_node (takeWhile (deeper n) ts)
                 else if item_of (dropWhile is_space r) \<noteq> None
                         \<or> split_key (dropWhile is_space r) \<noteq> None
                 then parse_node ((n + 2 + length (takeWhile is_space r), dropWhile is_space r)
                                  # takeWhile (deeper n) ts)
                 else if takeWhile (deeper n) ts \<noteq> [] then Unsupported
                 else item_value (dropWhile is_space r)) of
             Ok v \<Rightarrow>
               (case parse_seq n (dropWhile (deeper n) ts) of
                  Ok vs \<Rightarrow> Ok (v # vs) | SyntaxError \<Rightarrow> SyntaxError | Unsupported \<Rightarrow> Unsupported)
           | SyntaxError \<Rightarrow> SyntaxError
           | Unsupported \<Rightarrow> Unsupported))"
| "parse_map n [] = Ok []"
| "parse_map n (t # ts) =
     (if fst t \<noteq> n then Unsupported
      else case split_key (snd t) of
        None \<Rightarrow> Unsupported
      | Some (k, v) \<Rightarrow>
          if \<not> is_key k then Unsupported
          else
            (case (if dropWhile is_space v = [] then parse_node (takeWhile (under n) ts)
                   else if dropWhile is_space v = ''|'' then literal n (takeWhile (under n) ts)
                   else if takeWhile (under n) ts \<noteq> [] then Unsupported
                   else parse_value (dropWhile is_space v)) of
               Ok x \<Rightarrow>
                 (case parse_map n (dropWhile (under n) ts) of
                    Ok es \<Rightarrow> if k \<in> set (map fst es) then Unsupported else Ok ((k, x) # es)
                  | SyntaxError \<Rightarrow> SyntaxError
                  | Unsupported \<Rightarrow> Unsupported)
             | SyntaxError \<Rightarrow> SyntaxError
             | Unsupported \<Rightarrow> Unsupported))"
  by pat_completeness auto
termination
  by (relation "measure (\<lambda>x. case x of Inl ts \<Rightarrow> 2 * tsize ts + 1
                                 | Inr (Inl (n, ts)) \<Rightarrow> 2 * tsize ts
                                 | Inr (Inr (n, ts)) \<Rightarrow> 2 * tsize ts)")
     (simp_all add: compact_smaller)


section \<open>Reading a text given by its lines\<close>













section \<open>Field values that leave the YAML of the workflow text intact\<close>






































section \<open>The rendered texts as YAML\<close>











end
